theory Spec2Isabelle
  imports Complex_Main "HOL-Library.Sublist"
begin

section \<open>Exceptions\<close>

text \<open>
  A Python exception object, as far as the two components look at it: its class, its
  message, its \<^verbatim>\<open>code\<close> attribute, whether it is an instance of \<^verbatim>\<open>Exception\<close> (what
  \<^verbatim>\<open>except Exception\<close> catches; \<^verbatim>\<open>KeyboardInterrupt\<close>, \<^verbatim>\<open>SystemExit\<close> and other bare
  \<^verbatim>\<open>BaseException\<close>s are not) and its truth value (false only for a class that defines
  \<^verbatim>\<open>__bool__\<close> or \<^verbatim>\<open>__len__\<close> so). \<open>code = None\<close> stands for an object on which
  \<^verbatim>\<open>hasattr(error, "code")\<close> is false; a \<^verbatim>\<open>code\<close> attribute that is not a string is
  equal to neither of the two strings it is compared with and is any string other than
  those two here.
\<close>

record exn =
  exn_class :: string
  message :: string
  code :: "string option"
  is_exception :: bool
  truthy :: bool

definition fallback_error :: exn where
  "fallback_error =
     \<lparr>exn_class = ''Exception'', message = ''Operation failed after retries'', code = None,
      is_exception = True, truthy = True\<rparr>"

definition zero_division_error :: exn where
  "zero_division_error =
     \<lparr>exn_class = ''ZeroDivisionError'', message = ''integer division or modulo by zero'',
      code = None, is_exception = True, truthy = True\<rparr>"

definition type_error :: exn where
  "type_error =
     \<lparr>exn_class = ''TypeError'',
      message = ''unsupported operand type(s) for +: NoneType and int'', code = None,
      is_exception = True, truthy = True\<rparr>"

section \<open>utils/retry.py\<close>

text \<open>The dataclass \<^verbatim>\<open>RetryConfig\<close>; \<open>should_retry = None\<close> is Python's \<^verbatim>\<open>None\<close>.\<close>

record RetryConfig =
  max_retries :: int
  delay_ms :: int
  exponential_backoff :: bool
  should_retry :: "(exn \<Rightarrow> bool) option"

text \<open>\<^verbatim>\<open>RetryConfig()\<close>: the defaults of the dataclass.\<close>

definition default_config :: RetryConfig where
  "default_config =
     \<lparr>max_retries = 3, delay_ms = 1000, exponential_backoff = True, should_retry = None\<rparr>"

text \<open>
  What a run of \<^verbatim>\<open>with_retry\<close> does to the outside: it invokes the operation and it
  sleeps. \<open>Sleep d\<close> is a call \<^verbatim>\<open>time.sleep(delay / 1000.0)\<close> with \<open>delay = d\<close>, in
  milliseconds, that has returned. The operation is a zero-argument callable with a state
  of its own: a call in state \<open>s\<close> either raises or returns, and leaves a new state.
\<close>

datatype event = Invoke | Sleep int

record 's world =
  op_state :: 's
  trace :: "event list"

type_synonym ('s, 'a) operation = "'s \<Rightarrow> (exn + 'a) \<times> 's"

text \<open>
  \<^verbatim>\<open>time.sleep\<close> belongs to the Python runtime, not to this repository, and is a
  parameter: \<open>sleep d\<close> is \<open>None\<close> when \<^verbatim>\<open>time.sleep(d / 1000.0)\<close> sleeps and returns, and
  \<open>Some e\<close> when the statement raises \<open>e\<close> (\<^verbatim>\<open>ValueError\<close> for a negative length,
  \<^verbatim>\<open>OverflowError\<close> for a length beyond what the platform's clock or a float can hold).
\<close>

type_synonym sleep_fn = "int \<Rightarrow> exn option"

text \<open>
  The loop \<^verbatim>\<open>for attempt in range(config.max_retries + 1)\<close> with the statement after it.
  An error that is not an instance of \<^verbatim>\<open>Exception\<close> is not caught by \<^verbatim>\<open>except Exception\<close>
  and leaves \<^verbatim>\<open>with_retry\<close> as it is. An exception of \<^verbatim>\<open>time.sleep\<close> is raised inside the
  handler and leaves \<^verbatim>\<open>with_retry\<close> too. In \<^verbatim>\<open>raise last_error or Exception(...)\<close> the
  fallback is raised when no error was recorded and when the recorded one is falsy.
\<close>

function retry_loop ::
  "sleep_fn \<Rightarrow> RetryConfig \<Rightarrow> ('s, 'a) operation \<Rightarrow> nat \<Rightarrow> exn option \<Rightarrow> 's world
     \<Rightarrow> (exn + 'a) \<times> 's world" where
  "retry_loop sleep config operation attempt last_error w =
     (if int attempt < max_retries config + 1 then
        (case operation (op_state w) of
           (Inr v, s') \<Rightarrow> (Inr v, \<lparr>op_state = s', trace = trace w @ [Invoke]\<rparr>)
         | (Inl error, s') \<Rightarrow>
             (let w1 = \<lparr>op_state = s', trace = trace w @ [Invoke]\<rparr> in
              if \<not> is_exception error then (Inl error, w1)
              else if (case should_retry config of None \<Rightarrow> False | Some p \<Rightarrow> \<not> p error)
              then (Inl error, w1)
              else if (case code error of None \<Rightarrow> False
                       | Some error_code \<Rightarrow> error_code \<in> set [''23505'', ''23503''])
              then (Inl error, w1)
              else if int attempt < max_retries config then
                (let delay = (if exponential_backoff config
                              then delay_ms config * 2 ^ attempt
                              else delay_ms config) in
                 case sleep delay of
                   Some raised \<Rightarrow> (Inl raised, w1)
                 | None \<Rightarrow>
                     retry_loop sleep config operation (attempt + 1) (Some error)
                       (w1\<lparr>trace := trace w1 @ [Sleep delay]\<rparr>))
              else retry_loop sleep config operation (attempt + 1) (Some error) w1))
      else (case last_error of
              Some e \<Rightarrow> if truthy e then (Inl e, w) else (Inl fallback_error, w)
            | None \<Rightarrow> (Inl fallback_error, w)))"
  by pat_completeness auto
termination
  by (relation "measure (\<lambda>(sleep, config, operation, attempt, last_error, w).
                   nat (max_retries config + 1 - int attempt))") auto

definition with_retry ::
  "sleep_fn \<Rightarrow> ('s, 'a) operation \<Rightarrow> RetryConfig option \<Rightarrow> 's
     \<Rightarrow> (exn + 'a) \<times> 's world" where
  "with_retry sleep operation config s =
     (let config = (case config of None \<Rightarrow> default_config | Some c \<Rightarrow> c)
      in retry_loop sleep config operation 0 None \<lparr>op_state = s, trace = []\<rparr>)"

text \<open>
  The outcome of the \<open>i\<close>-th invocation (counted from 0) of an operation started in
  state \<open>s\<close>, when it is invoked again and again.
\<close>

definition state_after :: "('s, 'a) operation \<Rightarrow> 's \<Rightarrow> nat \<Rightarrow> 's" where
  "state_after operation s i = ((\<lambda>t. snd (operation t)) ^^ i) s"

definition nth_call :: "('s, 'a) operation \<Rightarrow> 's \<Rightarrow> nat \<Rightarrow> exn + 'a" where
  "nth_call operation s i = fst (operation (state_after operation s i))"

definition invocations :: "event list \<Rightarrow> nat" where
  "invocations tr = length (filter (\<lambda>ev. ev = Invoke) tr)"

text \<open>
  An error that the loop retries: caught by \<^verbatim>\<open>except Exception\<close> and stopped neither by
  the predicate nor by the two hard-coded codes.
\<close>

definition retryable :: "RetryConfig \<Rightarrow> exn \<Rightarrow> bool" where
  "retryable config error \<longleftrightarrow>
     is_exception error \<and>
     (case should_retry config of None \<Rightarrow> True | Some p \<Rightarrow> p error) \<and>
     code error \<noteq> Some ''23505'' \<and> code error \<noteq> Some ''23503''"

section \<open>database/pagination.py\<close>

text \<open>The dataclasses \<^verbatim>\<open>PaginationParams\<close> and \<^verbatim>\<open>PaginatedResponse\<close>.\<close>

record PaginationParams =
  page :: int
  limit :: int

record 'row PaginatedResponse =
  pr_data :: "'row list"
  pr_total :: int
  pr_page :: int
  pr_limit :: int
  total_pages :: int
  has_next :: bool
  has_prev :: bool

text \<open>
  The object that \<^verbatim>\<open>execute()\<close> returns, as far as \<^verbatim>\<open>paginate\<close> reads it.
  \<open>resp_data = None\<close>: the object has no attribute \<^verbatim>\<open>data\<close>; an attribute that is there is a
  list, as \<^verbatim>\<open>data: List[T]\<close> of \<^verbatim>\<open>PaginatedResponse\<close> has it. \<open>resp_count = None\<close>: it has
  no attribute \<^verbatim>\<open>count\<close>; \<open>Some None\<close>: the attribute is Python's \<^verbatim>\<open>None\<close> (no count
  was requested); \<open>Some (Some n)\<close>: it is the integer \<open>n\<close>.
\<close>

record 'row response =
  resp_data :: "'row list option"
  resp_count :: "int option option"

text \<open>
  The query builder: \<open>query lo hi\<close> is what \<^verbatim>\<open>query.range(lo, hi).execute()\<close> does, a
  response or a raised exception.
\<close>

type_synonym 'row query = "int \<Rightarrow> int \<Rightarrow> exn + 'row response"

text \<open>
  \<^verbatim>\<open>paginate\<close>, with the list of the \<^verbatim>\<open>range(lo, hi).execute()\<close> calls it has made.
  \<^verbatim>\<open>//\<close> on Python's integers is floor division, as \<open>div\<close> on \<open>int\<close> is; it raises
  \<^verbatim>\<open>ZeroDivisionError\<close> on a zero divisor, and \<^verbatim>\<open>None + limit\<close> raises \<^verbatim>\<open>TypeError\<close>.
\<close>

definition paginate ::
  "'row query \<Rightarrow> PaginationParams
     \<Rightarrow> (exn + 'row PaginatedResponse) \<times> (int \<times> int) list" where
  "paginate query params =
     (let page = page params; limit = limit params;
          offset = (page - 1) * limit;
          calls = [(offset, offset + limit - 1)]
      in case query offset (offset + limit - 1) of
           Inl e \<Rightarrow> (Inl e, calls)
         | Inr response \<Rightarrow>
             (let data = (case resp_data response of Some d \<Rightarrow> d | None \<Rightarrow> []);
                  total_opt = (case resp_count response of
                                 Some c \<Rightarrow> c
                               | None \<Rightarrow> Some (int (length data)))
              in case total_opt of
                   None \<Rightarrow> (Inl type_error, calls)
                 | Some n \<Rightarrow>
                     if limit = 0 then (Inl zero_division_error, calls)
                     else
                       (let total_pages = (n + limit - 1) div limit
                        in (Inr \<lparr>pr_data = data, pr_total = n, pr_page = page,
                                 pr_limit = limit, total_pages = total_pages,
                                 has_next = page < total_pages, has_prev = page > 1\<rparr>,
                            calls))))"

section \<open>Expected traces and sample inputs\<close>

text \<open>
  The trace of \<open>k\<close> failed attempts, numbered from \<open>a\<close>, each followed by its sleep:
  \<open>delay_ms * 2 ^ attempt\<close> with exponential backoff, \<open>delay_ms\<close> without.
\<close>

definition backoff_trace :: "RetryConfig \<Rightarrow> nat \<Rightarrow> nat \<Rightarrow> event list" where
  "backoff_trace config a k =
     concat (map (\<lambda>i. [Invoke, Sleep (if exponential_backoff config
                                        then delay_ms config * 2 ^ (a + i)
                                        else delay_ms config)]) [0..<k])"

text \<open>
  The operations of tests/test_utils.py: a counter of the calls made, an
  \<^verbatim>\<open>Exception("Temporary error")\<close> on each of the first \<open>k\<close> calls and \<^verbatim>\<open>"success"\<close> from
  then on; an operation that raises an error with a given \<^verbatim>\<open>code\<close> on every call; and an
  operation that raises \<^verbatim>\<open>KeyboardInterrupt\<close> on every call.
\<close>

definition temporary_error :: exn where
  "temporary_error =
     \<lparr>exn_class = ''Exception'', message = ''Temporary error'', code = None,
      is_exception = True, truthy = True\<rparr>"

definition flaky :: "nat \<Rightarrow> (nat, string) operation" where
  "flaky k s = (if s < k then Inl temporary_error else Inr ''success'', s + 1)"

definition coded_error :: "string \<Rightarrow> exn" where
  "coded_error c =
     \<lparr>exn_class = ''APIError'', message = ''constraint violated'', code = Some c,
      is_exception = True, truthy = True\<rparr>"

definition conflicting :: "string \<Rightarrow> (nat, string) operation" where
  "conflicting c s = (Inl (coded_error c), s + 1)"

definition keyboard_interrupt :: exn where
  "keyboard_interrupt =
     \<lparr>exn_class = ''KeyboardInterrupt'', message = [], code = None,
      is_exception = False, truthy = True\<rparr>"

definition interrupted :: "(nat, string) operation" where
  "interrupted s = (Inl keyboard_interrupt, s + 1)"

text \<open>
  A \<^verbatim>\<open>time.sleep\<close> that takes lengths from 0 to \<open>bound\<close> milliseconds. CPython keeps the length
  in a signed 64-bit count of nanoseconds, so there the bound is below 9223372036855.
\<close>

definition value_error :: exn where
  "value_error =
     \<lparr>exn_class = ''ValueError'', message = ''sleep length must be non-negative'',
      code = None, is_exception = True, truthy = True\<rparr>"

definition overflow_error :: exn where
  "overflow_error =
     \<lparr>exn_class = ''OverflowError'', message = ''timestamp too large to convert to C PyTime_t'',
      code = None, is_exception = True, truthy = True\<rparr>"

definition sleep_up_to :: "int \<Rightarrow> sleep_fn" where
  "sleep_up_to bound d =
     (if d < - bound \<or> bound < d then Some overflow_error
      else if d < 0 then Some value_error
      else None)"

text \<open>
  Query builders that answer every range with one fixed response: a response with neither
  a \<^verbatim>\<open>data\<close> nor a \<^verbatim>\<open>count\<close> attribute, the response of an empty page with a count, and
  the response of an empty page whose \<^verbatim>\<open>count\<close> is \<^verbatim>\<open>None\<close>, as it is when the caller's
  \<^verbatim>\<open>select\<close> has asked for no count.
\<close>

definition answering :: "'row response \<Rightarrow> 'row query" where
  "answering response lo hi = Inr response"

definition bare_response :: "nat response" where
  "bare_response = \<lparr>resp_data = None, resp_count = None\<rparr>"

definition counted_response :: "int \<Rightarrow> nat response" where
  "counted_response n = \<lparr>resp_data = Some [], resp_count = Some (Some n)\<rparr>"

definition uncounted_response :: "nat response" where
  "uncounted_response = \<lparr>resp_data = Some [], resp_count = Some None\<rparr>"

section \<open>The retry loop, one iteration at a time\<close>

declare retry_loop.simps [simp del]

lemma loop_done:
  "\<not> int attempt < max_retries config + 1 \<Longrightarrow>
   retry_loop sleep config operation attempt last_error w =
     (case last_error of
        Some e \<Rightarrow> if truthy e then (Inl e, w) else (Inl fallback_error, w)
      | None \<Rightarrow> (Inl fallback_error, w))"
  by (subst retry_loop.simps) simp

lemma loop_success:
  "int attempt < max_retries config + 1 \<Longrightarrow> operation (op_state w) = (Inr v, s') \<Longrightarrow>
   retry_loop sleep config operation attempt last_error w =
     (Inr v, \<lparr>op_state = s', trace = trace w @ [Invoke]\<rparr>)"
  by (subst retry_loop.simps) simp

lemma loop_rejected:
  "int attempt < max_retries config + 1 \<Longrightarrow> operation (op_state w) = (Inl e, s') \<Longrightarrow>
   \<not> retryable config e \<Longrightarrow>
   retry_loop sleep config operation attempt last_error w =
     (Inl e, \<lparr>op_state = s', trace = trace w @ [Invoke]\<rparr>)"
  by (subst retry_loop.simps) (auto simp: retryable_def Let_def split: option.splits)

lemma loop_retry:
  "int attempt < max_retries config \<Longrightarrow> operation (op_state w) = (Inl e, s') \<Longrightarrow>
   retryable config e \<Longrightarrow>
   sleep (if exponential_backoff config then delay_ms config * 2 ^ attempt
          else delay_ms config) = None \<Longrightarrow>
   retry_loop sleep config operation attempt last_error w =
     retry_loop sleep config operation (Suc attempt) (Some e)
       \<lparr>op_state = s',
        trace = trace w @ [Invoke, Sleep (if exponential_backoff config
                                          then delay_ms config * 2 ^ attempt
                                          else delay_ms config)]\<rparr>"
  by (subst retry_loop.simps) (auto simp: retryable_def Let_def split: option.splits)

lemma loop_sleep_raises:
  "int attempt < max_retries config \<Longrightarrow> operation (op_state w) = (Inl e, s') \<Longrightarrow>
   retryable config e \<Longrightarrow>
   sleep (if exponential_backoff config then delay_ms config * 2 ^ attempt
          else delay_ms config) = Some raised \<Longrightarrow>
   retry_loop sleep config operation attempt last_error w =
     (Inl raised, \<lparr>op_state = s', trace = trace w @ [Invoke]\<rparr>)"
  by (subst retry_loop.simps) (auto simp: retryable_def Let_def split: option.splits)

lemma loop_last:
  "int attempt = max_retries config \<Longrightarrow> operation (op_state w) = (Inl e, s') \<Longrightarrow>
   retryable config e \<Longrightarrow>
   retry_loop sleep config operation attempt last_error w =
     (Inl (if truthy e then e else fallback_error),
      \<lparr>op_state = s', trace = trace w @ [Invoke]\<rparr>)"
  by (subst retry_loop.simps)
    (auto simp: retryable_def Let_def loop_done split: option.splits)

lemma backoff_trace_0: "backoff_trace config a 0 = []"
  by (simp add: backoff_trace_def)

lemma backoff_trace_Suc:
  "backoff_trace config a (Suc k) =
     [Invoke, Sleep (if exponential_backoff config then delay_ms config * 2 ^ a
                     else delay_ms config)] @ backoff_trace config (Suc a) k"
proof -
  have "[0..<Suc k] = 0 # map Suc [0..<k]"
    by (simp add: upt_conv_Cons map_Suc_upt del: upt_Suc)
  then show ?thesis
    by (simp add: backoff_trace_def comp_def del: upt_Suc)
qed

lemma backoff_trace_from_0:
  "backoff_trace config 0 k =
     concat (map (\<lambda>i. [Invoke, Sleep (if exponential_backoff config
                                        then delay_ms config * 2 ^ i
                                        else delay_ms config)]) [0..<k])"
  by (simp add: backoff_trace_def cong: if_cong)

lemma invocations_append: "invocations (xs @ ys) = invocations xs + invocations ys"
  by (simp add: invocations_def)

lemma invocations_Invoke: "invocations [Invoke] = 1"
  by (simp add: invocations_def)

lemma invocations_backoff: "invocations (backoff_trace config a k) = k"
  by (induction k arbitrary: a) (simp_all add: backoff_trace_0 backoff_trace_Suc invocations_def)

lemma state_after_Suc:
  "state_after operation s (Suc i) = state_after operation (snd (operation s)) i"
  by (simp only: state_after_def funpow_Suc_right o_apply)

lemma nth_call_0: "nth_call operation s 0 = fst (operation s)"
  by (simp add: nth_call_def state_after_def)

lemma nth_call_Suc:
  "nth_call operation s (Suc i) = nth_call operation (snd (operation s)) i"
  by (simp add: nth_call_def state_after_Suc)

text \<open>
  \<open>k\<close> retried failures in a row, each followed by a sleep that \<^verbatim>\<open>time.sleep\<close> accepts,
  bring the loop from attempt \<open>a\<close> to attempt \<open>a + k\<close>.
\<close>

lemma loop_failures:
  "int (a + k) \<le> max_retries config \<Longrightarrow>
   (\<forall>i<k. \<exists>e. nth_call operation (op_state w) i = Inl e \<and> retryable config e) \<Longrightarrow>
   (\<forall>i<k. sleep (if exponential_backoff config then delay_ms config * 2 ^ (a + i)
                 else delay_ms config) = None) \<Longrightarrow>
   \<exists>le'. retry_loop sleep config operation a le w =
     retry_loop sleep config operation (a + k) le'
       \<lparr>op_state = state_after operation (op_state w) k,
        trace = trace w @ backoff_trace config a k\<rparr>"
proof (induction k arbitrary: a le w)
  case 0
  show ?case
    by (rule exI [of _ le], cases w) (simp add: backoff_trace_0 state_after_def)
next
  case (Suc k)
  from Suc.prems(2) obtain e where e: "nth_call operation (op_state w) 0 = Inl e"
    and r: "retryable config e"
    by auto
  define s' where "s' = snd (operation (op_state w))"
  have op: "operation (op_state w) = (Inl e, s')"
    using e by (simp add: nth_call_0 s'_def prod_eq_iff)
  define d where "d = (if exponential_backoff config then delay_ms config * 2 ^ a
                       else delay_ms config)"
  define w' where "w' = \<lparr>op_state = s', trace = trace w @ [Invoke, Sleep d]\<rparr>"
  have accepted: "sleep d = None"
    using Suc.prems(3) by (auto simp: d_def)
  have more: "int a < max_retries config"
    using Suc.prems(1) by simp
  have step: "retry_loop sleep config operation a le w =
                retry_loop sleep config operation (Suc a) (Some e) w'"
    unfolding w'_def d_def using more op r accepted [unfolded d_def] by (rule loop_retry)
  have rest: "\<forall>i<k. \<exists>e. nth_call operation (op_state w') i = Inl e \<and> retryable config e"
  proof (intro allI impI)
    fix i assume "i < k"
    then have "Suc i < Suc k" by simp
    with Suc.prems(2) obtain e' where
      "nth_call operation (op_state w) (Suc i) = Inl e'" "retryable config e'"
      by blast
    then show "\<exists>e. nth_call operation (op_state w') i = Inl e \<and> retryable config e"
      by (auto simp: nth_call_Suc w'_def s'_def)
  qed
  have sleeps: "\<forall>i<k. sleep (if exponential_backoff config
                               then delay_ms config * 2 ^ (Suc a + i)
                               else delay_ms config) = None"
  proof (intro allI impI)
    fix i assume "i < k"
    then have "Suc i < Suc k" by simp
    with Suc.prems(3) have "sleep (if exponential_backoff config
                                   then delay_ms config * 2 ^ (a + Suc i)
                                   else delay_ms config) = None"
      by blast
    then show "sleep (if exponential_backoff config then delay_ms config * 2 ^ (Suc a + i)
                      else delay_ms config) = None"
      by (simp only: add_Suc add_Suc_right)
  qed
  from Suc.prems(1) have "int (Suc a + k) \<le> max_retries config" by simp
  from Suc.IH [OF this rest sleeps, of "Some e"] obtain le' where
    "retry_loop sleep config operation (Suc a) (Some e) w' =
       retry_loop sleep config operation (Suc a + k) le'
         \<lparr>op_state = state_after operation (op_state w') k,
          trace = trace w' @ backoff_trace config (Suc a) k\<rparr>"
    by blast
  with step show ?case
    by (auto simp: w'_def d_def s'_def state_after_Suc backoff_trace_Suc)
qed

text \<open>The trace only grows, and an attempt that is made begins with an invocation.\<close>

lemma trace_grows:
  "prefix (trace w) (trace (snd (retry_loop sleep config operation attempt last_error w)))"
proof (induction "nat (max_retries config + 1 - int attempt)"
         arbitrary: attempt last_error w)
  case 0
  then have "\<not> int attempt < max_retries config + 1" by simp
  then show ?case
    by (simp add: loop_done split: option.splits)
next
  case (Suc n)
  then have lt: "int attempt < max_retries config + 1" by simp
  obtain r s' where op: "operation (op_state w) = (r, s')"
    by (cases "operation (op_state w)")
  show ?case
  proof (cases r)
    case (Inr v)
    with op lt show ?thesis by (simp add: loop_success)
  next
    case (Inl e)
    show ?thesis
    proof (cases "retryable config e")
      case False
      with op lt Inl show ?thesis by (simp add: loop_rejected)
    next
      case True
      show ?thesis
      proof (cases "int attempt = max_retries config")
        case True
        with op Inl \<open>retryable config e\<close> show ?thesis by (simp add: loop_last)
      next
        case False
        with lt have more: "int attempt < max_retries config" by simp
        define d where "d = (if exponential_backoff config then delay_ms config * 2 ^ attempt
                             else delay_ms config)"
        show ?thesis
        proof (cases "sleep d")
          case (Some raised)
          with more op Inl True show ?thesis
            by (simp add: loop_sleep_raises d_def)
        next
          case None
          let ?w' = "\<lparr>op_state = s', trace = trace w @ [Invoke, Sleep d]\<rparr>"
          from Suc.hyps(2) have n: "n = nat (max_retries config + 1 - int (Suc attempt))"
            by simp
          have "retry_loop sleep config operation attempt last_error w =
                  retry_loop sleep config operation (Suc attempt) (Some e) ?w'"
            using more op Inl True None by (simp add: loop_retry d_def)
          moreover have "prefix (trace ?w')
             (trace (snd (retry_loop sleep config operation (Suc attempt) (Some e) ?w')))"
            by (rule Suc.hyps(1) [OF n])
          ultimately show ?thesis
            by (auto dest: append_prefixD)
        qed
      qed
    qed
  qed
qed

lemma loop_invokes:
  assumes "int attempt < max_retries config + 1"
  shows "prefix (trace w @ [Invoke])
           (trace (snd (retry_loop sleep config operation attempt last_error w)))"
proof -
  obtain r s' where op: "operation (op_state w) = (r, s')"
    by (cases "operation (op_state w)")
  show ?thesis
  proof (cases r)
    case (Inr v)
    with op assms show ?thesis by (simp add: loop_success)
  next
    case (Inl e)
    show ?thesis
    proof (cases "retryable config e")
      case False
      with op assms Inl show ?thesis by (simp add: loop_rejected)
    next
      case True
      show ?thesis
      proof (cases "int attempt = max_retries config")
        case True
        with op Inl \<open>retryable config e\<close> show ?thesis by (simp add: loop_last)
      next
        case False
        with assms have more: "int attempt < max_retries config" by simp
        define d where "d = (if exponential_backoff config then delay_ms config * 2 ^ attempt
                             else delay_ms config)"
        show ?thesis
        proof (cases "sleep d")
          case (Some raised)
          with more op Inl True show ?thesis
            by (simp add: loop_sleep_raises d_def)
        next
          case None
          let ?w' = "\<lparr>op_state = s', trace = trace w @ [Invoke, Sleep d]\<rparr>"
          have "retry_loop sleep config operation attempt last_error w =
                  retry_loop sleep config operation (Suc attempt) (Some e) ?w'"
            using more op Inl True None by (simp add: loop_retry d_def)
          moreover have "prefix (trace ?w')
             (trace (snd (retry_loop sleep config operation (Suc attempt) (Some e) ?w')))"
            by (rule trace_grows)
          moreover have "prefix (trace w @ [Invoke]) (trace ?w')"
            by simp
          ultimately show ?thesis
            by (metis prefix_order.order_trans)
        qed
      qed
    qed
  qed
qed

section \<open>Whole runs of with_retry\<close>

lemma with_retry_Some:
  "with_retry sleep operation (Some config) s =
     retry_loop sleep config operation 0 None \<lparr>op_state = s, trace = []\<rparr>"
  by (simp add: with_retry_def)

lemma with_retry_None:
  "with_retry sleep operation None s = with_retry sleep operation (Some default_config) s"
  by (simp add: with_retry_def)

lemma run_of_failures:
  assumes "int k \<le> max_retries config"
    and "\<forall>i<k. \<exists>e. nth_call operation s i = Inl e \<and> retryable config e"
    and "\<forall>i<k. sleep (if exponential_backoff config then delay_ms config * 2 ^ i
                       else delay_ms config) = None"
  shows "\<exists>le'. with_retry sleep operation (Some config) s =
           retry_loop sleep config operation k le'
             \<lparr>op_state = state_after operation s k, trace = backoff_trace config 0 k\<rparr>"
proof -
  have "\<forall>i<k. sleep (if exponential_backoff config then delay_ms config * 2 ^ (0 + i)
                     else delay_ms config) = None"
    using assms(3) by (simp cong: if_cong)
  from loop_failures [of 0 k config operation "\<lparr>op_state = s, trace = []\<rparr>" sleep None, OF _ _ this]
    assms(1,2)
  show ?thesis
    by (simp add: with_retry_Some)
qed

lemma fail_then_succeed:
  assumes "int k \<le> max_retries config"
    and "\<forall>i<k. \<exists>e. nth_call operation s i = Inl e \<and> retryable config e"
    and "\<forall>i<k. sleep (if exponential_backoff config then delay_ms config * 2 ^ i
                       else delay_ms config) = None"
    and "nth_call operation s k = Inr v"
  shows "with_retry sleep operation (Some config) s =
           (Inr v, \<lparr>op_state = state_after operation s (Suc k),
                    trace = backoff_trace config 0 k @ [Invoke]\<rparr>)"
proof -
  let ?wk = "\<lparr>op_state = state_after operation s k, trace = backoff_trace config 0 k\<rparr>"
  from run_of_failures [OF assms(1,2,3)] obtain le' where
    "with_retry sleep operation (Some config) s = retry_loop sleep config operation k le' ?wk"
    by blast
  moreover have "operation (op_state ?wk) = (Inr v, state_after operation s (Suc k))"
    using assms(4) by (simp add: nth_call_def state_after_def prod_eq_iff)
  then have "retry_loop sleep config operation k le' ?wk =
      (Inr v, \<lparr>op_state = state_after operation s (Suc k), trace = trace ?wk @ [Invoke]\<rparr>)"
    using assms(1) by (intro loop_success) auto
  ultimately show ?thesis
    by simp
qed

lemma fail_to_the_end:
  assumes "int k = max_retries config"
    and "\<forall>i<k. \<exists>e. nth_call operation s i = Inl e \<and> retryable config e"
    and "\<forall>i<k. sleep (if exponential_backoff config then delay_ms config * 2 ^ i
                       else delay_ms config) = None"
    and "nth_call operation s k = Inl e" and "retryable config e"
  shows "with_retry sleep operation (Some config) s =
           (Inl (if truthy e then e else fallback_error),
            \<lparr>op_state = state_after operation s (Suc k),
             trace = backoff_trace config 0 k @ [Invoke]\<rparr>)"
proof -
  let ?wk = "\<lparr>op_state = state_after operation s k, trace = backoff_trace config 0 k\<rparr>"
  have "int k \<le> max_retries config"
    using assms(1) by simp
  from run_of_failures [OF this assms(2,3)] obtain le' where
    "with_retry sleep operation (Some config) s = retry_loop sleep config operation k le' ?wk"
    by blast
  moreover have "operation (op_state ?wk) = (Inl e, state_after operation s (Suc k))"
    using assms(4) by (simp add: nth_call_def state_after_def prod_eq_iff)
  then have "retry_loop sleep config operation k le' ?wk =
      (Inl (if truthy e then e else fallback_error),
       \<lparr>op_state = state_after operation s (Suc k), trace = trace ?wk @ [Invoke]\<rparr>)"
    using assms(1,5) by (intro loop_last) auto
  ultimately show ?thesis
    by simp
qed

text \<open>The sample operations, call by call.\<close>

lemma state_after_flaky: "state_after (flaky k) s i = s + i"
  by (induction i arbitrary: s) (simp_all add: state_after_Suc flaky_def, simp add: state_after_def)

lemma nth_call_flaky:
  "nth_call (flaky k) s i = (if s + i < k then Inl temporary_error else Inr ''success'')"
  by (simp add: nth_call_def state_after_flaky flaky_def)

lemma nth_call_conflicting: "nth_call (conflicting c) s i = Inl (coded_error c)"
  by (simp add: nth_call_def conflicting_def)

text \<open>
  What lies outside the retried runs: a negative delay and a delay beyond the clock's
  range stop the run at the first sleep, and a falsy error is replaced by the fallback
  when the attempts are spent.
\<close>

lemma negative_delay_raises:
  "with_retry (sleep_up_to 9223372036854) (conflicting ''42501'')
     (Some \<lparr>max_retries = 1, delay_ms = - 1, exponential_backoff = True,
            should_retry = None\<rparr>) 0 =
     (Inl value_error, \<lparr>op_state = 1, trace = [Invoke]\<rparr>)"
  by (simp add: with_retry_def retry_loop.simps conflicting_def coded_error_def
        sleep_up_to_def)

lemma falsy_error_replaced:
  "with_retry sleep (\<lambda>s::nat. (Inl (temporary_error\<lparr>truthy := False\<rparr>) :: exn + string, s + 1))
     (Some \<lparr>max_retries = 0, delay_ms = 10, exponential_backoff = True,
            should_retry = None\<rparr>) 0 =
     (Inl fallback_error, \<lparr>op_state = 1, trace = [Invoke]\<rparr>)"
  by (simp add: with_retry_def retry_loop.simps temporary_error_def)

section \<open>Page arithmetic\<close>


lemma paginate_calls:
  "snd (paginate query params) =
     [((page params - 1) * limit params, (page params - 1) * limit params + limit params - 1)]"
  by (simp add: paginate_def Let_def split: sum.splits option.splits)

lemma paginate_raises:
  assumes "query ((page params - 1) * limit params)
             ((page params - 1) * limit params + limit params - 1) = Inl e"
  shows "fst (paginate query params) = Inl e"
  using assms by (simp add: paginate_def Let_def)

lemma paginate_count_None:
  assumes "query ((page params - 1) * limit params)
             ((page params - 1) * limit params + limit params - 1) = Inr response"
    and "resp_count response = Some None"
  shows "fst (paginate query params) = Inl type_error"
  using assms by (simp add: paginate_def Let_def)

lemma paginate_limit_0:
  assumes "query ((page params - 1) * limit params)
             ((page params - 1) * limit params + limit params - 1) = Inr response"
    and "resp_count response \<noteq> Some None" and "limit params = 0"
  shows "fst (paginate query params) = Inl zero_division_error"
  using assms by (auto simp: paginate_def Let_def split: option.splits)

lemma paginate_counted:
  assumes "query ((page params - 1) * limit params)
             ((page params - 1) * limit params + limit params - 1) = Inr response"
    and "resp_count response = Some (Some n)" and "limit params \<noteq> 0"
  shows "fst (paginate query params) =
     Inr \<lparr>pr_data = (case resp_data response of Some d \<Rightarrow> d | None \<Rightarrow> []),
          pr_total = n, pr_page = page params, pr_limit = limit params,
          total_pages = (n + limit params - 1) div limit params,
          has_next = page params < (n + limit params - 1) div limit params,
          has_prev = page params > 1\<rparr>"
  using assms by (simp add: paginate_def Let_def)

lemma paginate_uncounted:
  assumes "query ((page params - 1) * limit params)
             ((page params - 1) * limit params + limit params - 1) = Inr response"
    and "resp_count response = None" and "limit params \<noteq> 0"
  shows "\<exists>r. fst (paginate query params) = Inr r \<and>
           pr_data r = (case resp_data response of Some d \<Rightarrow> d | None \<Rightarrow> []) \<and>
           pr_total r = int (length (pr_data r))"
  using assms by (simp add: paginate_def Let_def)


section \<open>Claims about with_retry\<close>

text \<open>
  C10. With a negative \<open>max_retries\<close> the range of the loop is empty: the operation is
  never invoked, there is no sleep, and what is raised is the fallback
  \<^verbatim>\<open>Exception("Operation failed after retries")\<close>, since no error was recorded.
\<close>

theorem with_retry_negative_max_retries:
  assumes "max_retries config < 0"
  shows "with_retry sleep operation (Some config) s =
           (Inl fallback_error, \<lparr>op_state = s, trace = []\<rparr>) \<and>
         message fallback_error = ''Operation failed after retries''"
  using assms by (simp add: with_retry_Some loop_done fallback_error_def)

theorem with_retry_negative_max_retries_witness:
  "max_retries \<lparr>max_retries = - 1, delay_ms = 1000, exponential_backoff = True,
                 should_retry = None\<rparr> < 0 \<and>
   with_retry (sleep_up_to 9223372036854) (flaky 0)
     (Some \<lparr>max_retries = - 1, delay_ms = 1000, exponential_backoff = True,
            should_retry = None\<rparr>) 0 =
     (Inl fallback_error, \<lparr>op_state = 0, trace = []\<rparr>)"
  using with_retry_negative_max_retries
          [of "\<lparr>max_retries = - 1, delay_ms = 1000, exponential_backoff = True,
                 should_retry = None\<rparr>" "sleep_up_to 9223372036854" "flaky 0" 0]
  by simp

text \<open>
  C1, as stated, fails in two ways. An error that \<^verbatim>\<open>except Exception\<close> does not catch,
  \<^verbatim>\<open>KeyboardInterrupt\<close> raised on every call, leaves \<open>with_retry\<close> after the first
  invocation, with \<open>max_retries = 2\<close>, instead of the third. And with \<open>delay_ms = 10 ^ 30\<close>
  the first sleep raises \<^verbatim>\<open>OverflowError\<close>: again one invocation, and what is raised is not
  an error of the operation.
\<close>

theorem with_retry_interrupted_counterexample:
  "with_retry (sleep_up_to 9223372036854) interrupted
     (Some \<lparr>max_retries = 2, delay_ms = 10, exponential_backoff = True,
            should_retry = None\<rparr>) 0 =
     (Inl keyboard_interrupt, \<lparr>op_state = 1, trace = [Invoke]\<rparr>) \<and>
   with_retry (sleep_up_to 9223372036854) (conflicting ''42501'')
     (Some \<lparr>max_retries = 2, delay_ms = 1000000000000000000000000000000,
            exponential_backoff = True, should_retry = None\<rparr>) 0 =
     (Inl overflow_error, \<lparr>op_state = 1, trace = [Invoke]\<rparr>)"
  by (simp add: with_retry_def retry_loop.simps interrupted_def keyboard_interrupt_def
        conflicting_def coded_error_def sleep_up_to_def)

text \<open>
  C1, amended. Let \<open>max_retries = n \<ge> 0\<close> and let there be no \<open>should_retry\<close> predicate.
  If each of the first \<open>n + 1\<close> calls of the operation raises an error that is an instance
  of \<^verbatim>\<open>Exception\<close> and has no non-retryable code (an operation that raises such errors on
  every call does), if \<^verbatim>\<open>time.sleep\<close> accepts each of the \<open>n\<close> delays between the attempts,
  and if the error of call \<open>n + 1\<close> is truthy, then the operation is invoked exactly
  \<open>n + 1\<close> times and \<open>with_retry\<close> raises the error of the last of these calls.
\<close>

theorem with_retry_always_fails:
  assumes "0 \<le> max_retries config" and "should_retry config = None"
    and "\<forall>i < nat (max_retries config).
           sleep (if exponential_backoff config then delay_ms config * 2 ^ i
                  else delay_ms config) = None"
    and "\<forall>i \<le> nat (max_retries config). \<exists>e. nth_call operation s i = Inl e \<and>
           is_exception e \<and> code e \<noteq> Some ''23505'' \<and> code e \<noteq> Some ''23503'' \<and>
           (i = nat (max_retries config) \<longrightarrow> truthy e)"
  shows "\<exists>e. fst (with_retry sleep operation (Some config) s) = Inl e \<and>
             nth_call operation s (nat (max_retries config)) = Inl e \<and>
             invocations (trace (snd (with_retry sleep operation (Some config) s))) =
               nat (max_retries config) + 1"
proof -
  let ?n = "nat (max_retries config)"
  have r: "\<forall>i \<le> ?n. \<exists>e. nth_call operation s i = Inl e \<and> retryable config e"
    using assms(2,4) by (simp add: retryable_def) blast
  from assms(4) obtain e where e: "nth_call operation s ?n = Inl e" "truthy e"
    by blast
  with r have re: "retryable config e"
    by auto
  have "with_retry sleep operation (Some config) s =
           (Inl (if truthy e then e else fallback_error),
            \<lparr>op_state = state_after operation s (Suc ?n),
             trace = backoff_trace config 0 ?n @ [Invoke]\<rparr>)"
    using assms(1,3) r e(1) re by (intro fail_to_the_end) auto
  with e show ?thesis
    by (simp add: invocations_append invocations_backoff invocations_Invoke)
qed

theorem with_retry_always_fails_witness:
  "(0::int) \<le> 2 \<and>
   sleep_up_to 9223372036854 10 = None \<and> sleep_up_to 9223372036854 20 = None \<and>
   nth_call (conflicting ''42501'') 0 0 = Inl (coded_error ''42501'') \<and>
   nth_call (conflicting ''42501'') 0 1 = Inl (coded_error ''42501'') \<and>
   nth_call (conflicting ''42501'') 0 2 = Inl (coded_error ''42501'') \<and>
   is_exception (coded_error ''42501'') \<and> truthy (coded_error ''42501'') \<and>
   code (coded_error ''42501'') \<noteq> Some ''23505'' \<and>
   code (coded_error ''42501'') \<noteq> Some ''23503'' \<and>
   fst (with_retry (sleep_up_to 9223372036854) (conflicting ''42501'')
          (Some \<lparr>max_retries = 2, delay_ms = 10, exponential_backoff = True,
                 should_retry = None\<rparr>) 0) = Inl (coded_error ''42501'') \<and>
   invocations (trace (snd (with_retry (sleep_up_to 9223372036854) (conflicting ''42501'')
          (Some \<lparr>max_retries = 2, delay_ms = 10, exponential_backoff = True,
                 should_retry = None\<rparr>) 0))) = 3"
proof -
  let ?config = "\<lparr>max_retries = 2, delay_ms = 10, exponential_backoff = True,
                   should_retry = None\<rparr>"
  have sleeps: "\<forall>i < nat (max_retries ?config).
      sleep_up_to 9223372036854
        (if exponential_backoff ?config then delay_ms ?config * 2 ^ i
         else delay_ms ?config) = None"
    by (simp add: sleep_up_to_def numeral_2_eq_2 less_Suc_eq)
  have calls: "\<forall>i \<le> nat (max_retries ?config).
      \<exists>e. nth_call (conflicting ''42501'') 0 i = Inl e \<and>
          is_exception e \<and> code e \<noteq> Some ''23505'' \<and> code e \<noteq> Some ''23503'' \<and>
          (i = nat (max_retries ?config) \<longrightarrow> truthy e)"
    by (simp add: nth_call_conflicting coded_error_def)
  from with_retry_always_fails [of ?config "sleep_up_to 9223372036854"
         "conflicting ''42501''" 0, OF _ _ sleeps calls]
  show ?thesis
    by (simp add: nth_call_conflicting coded_error_def sleep_up_to_def)
qed

text \<open>
  C8, as stated, fails when \<^verbatim>\<open>time.sleep\<close> does not accept the delay: with
  \<open>delay_ms = 10 ^ 30\<close> an operation that fails once and would then succeed, under
  \<open>max_retries = 3\<close>, is invoked once; the sleep raises \<^verbatim>\<open>OverflowError\<close>, and that is what
  \<open>with_retry\<close> raises.
\<close>

theorem with_retry_overflow_counterexample:
  "with_retry (sleep_up_to 9223372036854) (flaky 1)
     (Some \<lparr>max_retries = 3, delay_ms = 1000000000000000000000000000000,
            exponential_backoff = True, should_retry = None\<rparr>) 0 =
     (Inl overflow_error, \<lparr>op_state = 1, trace = [Invoke]\<rparr>)"
  by (simp add: with_retry_def retry_loop.simps flaky_def temporary_error_def
        sleep_up_to_def)

text \<open>
  C8, amended. An operation that fails \<open>k < max_retries\<close> times, each time with an error
  that is retried (an instance of \<^verbatim>\<open>Exception\<close> that \<open>should_retry\<close>, if supplied,
  accepts and that has no non-retryable code), and then succeeds: if \<^verbatim>\<open>time.sleep\<close>
  accepts each of the \<open>k\<close> delays between the attempts, \<open>with_retry\<close> returns the value of
  the successful call, and the operation has been invoked exactly \<open>k + 1\<close> times.
\<close>

theorem with_retry_eventual_success:
  assumes "int k < max_retries config"
    and "\<forall>i<k. \<exists>e. nth_call operation s i = Inl e \<and> retryable config e"
    and "\<forall>i<k. sleep (if exponential_backoff config then delay_ms config * 2 ^ i
                       else delay_ms config) = None"
    and "nth_call operation s k = Inr v"
  shows "fst (with_retry sleep operation (Some config) s) = Inr v \<and>
         invocations (trace (snd (with_retry sleep operation (Some config) s))) = k + 1"
proof -
  have "with_retry sleep operation (Some config) s =
           (Inr v, \<lparr>op_state = state_after operation s (Suc k),
                    trace = backoff_trace config 0 k @ [Invoke]\<rparr>)"
    using assms by (intro fail_then_succeed) auto
  then show ?thesis
    by (simp add: invocations_append invocations_backoff invocations_Invoke)
qed

theorem with_retry_eventual_success_witness:
  "int 2 < 3 \<and>
   nth_call (flaky 2) 0 0 = Inl temporary_error \<and>
   nth_call (flaky 2) 0 1 = Inl temporary_error \<and>
   retryable \<lparr>max_retries = 3, delay_ms = 10, exponential_backoff = True,
              should_retry = None\<rparr> temporary_error \<and>
   sleep_up_to 9223372036854 10 = None \<and> sleep_up_to 9223372036854 20 = None \<and>
   nth_call (flaky 2) 0 2 = Inr ''success'' \<and>
   fst (with_retry (sleep_up_to 9223372036854) (flaky 2)
          (Some \<lparr>max_retries = 3, delay_ms = 10, exponential_backoff = True,
                 should_retry = None\<rparr>) 0) = Inr ''success'' \<and>
   invocations (trace (snd (with_retry (sleep_up_to 9223372036854) (flaky 2)
          (Some \<lparr>max_retries = 3, delay_ms = 10, exponential_backoff = True,
                 should_retry = None\<rparr>) 0))) = 3"
proof -
  let ?config = "\<lparr>max_retries = 3, delay_ms = 10, exponential_backoff = True,
                   should_retry = None\<rparr>"
  have calls: "\<forall>i<2. \<exists>e. nth_call (flaky 2) 0 i = Inl e \<and> retryable ?config e"
    by (simp add: nth_call_flaky retryable_def temporary_error_def)
  have sleeps: "\<forall>i<2. sleep_up_to 9223372036854
                         (if exponential_backoff ?config then delay_ms ?config * 2 ^ i
                          else delay_ms ?config) = None"
    by (simp add: sleep_up_to_def numeral_2_eq_2 less_Suc_eq)
  from with_retry_eventual_success [of 2 ?config "flaky 2" 0 "sleep_up_to 9223372036854"
         "''success''", OF _ calls sleeps]
  show ?thesis
    by (simp add: nth_call_flaky retryable_def temporary_error_def sleep_up_to_def)
qed

text \<open>
  C5, as stated, fails when \<^verbatim>\<open>time.sleep\<close> does not accept the delay: with
  \<open>delay_ms = 10 ^ 30\<close> and a constant delay, attempt 0 of 3 fails with an error that is
  retried, and there is no sleep of \<open>delay_ms\<close> and no next attempt; the sleep raises
  \<^verbatim>\<open>OverflowError\<close>.
\<close>

theorem with_retry_no_sleep_counterexample:
  "with_retry (sleep_up_to 9223372036854) (flaky 2)
     (Some \<lparr>max_retries = 2, delay_ms = 1000000000000000000000000000000,
            exponential_backoff = False, should_retry = None\<rparr>) 0 =
     (Inl overflow_error, \<lparr>op_state = 1, trace = [Invoke]\<rparr>)"
  by (simp add: with_retry_def retry_loop.simps flaky_def temporary_error_def
        sleep_up_to_def)

text \<open>
  C5, amended. When the attempts \<open>0, \<dots>, k - 1\<close> fail with errors that are retried
  (instances of \<^verbatim>\<open>Exception\<close> that \<open>should_retry\<close>, if supplied, accepts and that have no
  non-retryable code), more attempts remain (\<open>k \<le> max_retries\<close>) and \<^verbatim>\<open>time.sleep\<close> accepts
  the delays, the run starts with: attempt \<open>0\<close>, a sleep of \<open>delay_ms * 2 ^ 0\<close>, attempt
  \<open>1\<close>, a sleep of \<open>delay_ms * 2 ^ 1\<close>, \<dots>, a sleep of \<open>delay_ms * 2 ^ (k - 1)\<close>, attempt
  \<open>k\<close>, under exponential backoff; every one of these sleeps is \<open>delay_ms\<close> without it.
  The instance below is the scenario \<open>max_retries = 2\<close>, \<open>delay_ms = 100\<close>, two failures
  and then a success: the sleeps are 100 and 200 milliseconds, and there are three
  invocations.
\<close>

theorem with_retry_backoff_delays:
  assumes "int k \<le> max_retries config"
    and "\<forall>i<k. \<exists>e. nth_call operation s i = Inl e \<and> retryable config e"
    and "\<forall>i<k. sleep (if exponential_backoff config then delay_ms config * 2 ^ i
                       else delay_ms config) = None"
  shows "prefix
           (concat (map (\<lambda>i. [Invoke, Sleep (if exponential_backoff config
                                              then delay_ms config * 2 ^ i
                                              else delay_ms config)]) [0..<k]) @ [Invoke])
           (trace (snd (with_retry sleep operation (Some config) s)))"
proof -
  let ?wk = "\<lparr>op_state = state_after operation s k, trace = backoff_trace config 0 k\<rparr>"
  from run_of_failures [OF assms] obtain le' where
    "with_retry sleep operation (Some config) s = retry_loop sleep config operation k le' ?wk"
    by blast
  moreover have "prefix (trace ?wk @ [Invoke])
                   (trace (snd (retry_loop sleep config operation k le' ?wk)))"
    using assms(1) by (intro loop_invokes) auto
  ultimately show ?thesis
    by (simp add: backoff_trace_from_0)
qed

theorem with_retry_backoff_delays_witness:
  "int 2 \<le> 2 \<and>
   nth_call (flaky 2) 0 0 = Inl temporary_error \<and>
   nth_call (flaky 2) 0 1 = Inl temporary_error \<and>
   retryable \<lparr>max_retries = 2, delay_ms = 100, exponential_backoff = True,
              should_retry = None\<rparr> temporary_error \<and>
   sleep_up_to 9223372036854 100 = None \<and> sleep_up_to 9223372036854 200 = None \<and>
   prefix [Invoke, Sleep 100, Invoke, Sleep 200, Invoke]
     (trace (snd (with_retry (sleep_up_to 9223372036854) (flaky 2)
          (Some \<lparr>max_retries = 2, delay_ms = 100, exponential_backoff = True,
                 should_retry = None\<rparr>) 0))) \<and>
   with_retry (sleep_up_to 9223372036854) (flaky 2)
     (Some \<lparr>max_retries = 2, delay_ms = 100, exponential_backoff = True,
            should_retry = None\<rparr>) 0 =
     (Inr ''success'',
      \<lparr>op_state = 3, trace = [Invoke, Sleep 100, Invoke, Sleep 200, Invoke]\<rparr>)"
proof -
  let ?config = "\<lparr>max_retries = 2, delay_ms = 100, exponential_backoff = True,
                   should_retry = None\<rparr>"
  have calls: "\<forall>i<2. \<exists>e. nth_call (flaky 2) 0 i = Inl e \<and> retryable ?config e"
    by (simp add: nth_call_flaky retryable_def temporary_error_def)
  have sleeps: "\<forall>i<2. sleep_up_to 9223372036854
                         (if exponential_backoff ?config then delay_ms ?config * 2 ^ i
                          else delay_ms ?config) = None"
    by (simp add: sleep_up_to_def numeral_2_eq_2 less_Suc_eq)
  have run: "with_retry (sleep_up_to 9223372036854) (flaky 2) (Some ?config) 0 =
     (Inr ''success'',
      \<lparr>op_state = 3, trace = [Invoke, Sleep 100, Invoke, Sleep 200, Invoke]\<rparr>)"
    by (simp add: with_retry_def retry_loop.simps flaky_def temporary_error_def
          sleep_up_to_def)
  have "prefix [Invoke, Sleep 100, Invoke, Sleep 200, Invoke]
          (trace (snd (with_retry (sleep_up_to 9223372036854) (flaky 2) (Some ?config) 0)))"
    using with_retry_backoff_delays [of 2 ?config "flaky 2" 0 "sleep_up_to 9223372036854",
            OF _ calls sleeps]
    by (simp add: upt_conv_Cons)
  with run show ?thesis
    by (simp add: nth_call_flaky retryable_def temporary_error_def sleep_up_to_def)
qed

text \<open>
  C6. When the first call of the operation raises an error whose \<^verbatim>\<open>code\<close> is \<^verbatim>\<open>"23505"\<close>
  (unique constraint) or \<^verbatim>\<open>"23503"\<close> (foreign key), \<open>with_retry\<close> raises that error at
  once: one invocation, no sleep, whatever \<open>should_retry\<close> is, also a predicate that is
  true of every error (\<open>max_retries \<ge> 0\<close>, so that there is a first call).
\<close>

theorem with_retry_non_retryable_code:
  assumes "0 \<le> max_retries config" and "operation s = (Inl e, s')"
    and "code e = Some ''23505'' \<or> code e = Some ''23503''"
  shows "with_retry sleep operation (Some config) s =
           (Inl e, \<lparr>op_state = s', trace = [Invoke]\<rparr>)"
proof -
  have "\<not> retryable config e"
    using assms(3) by (auto simp: retryable_def)
  with assms(1,2) show ?thesis
    by (simp add: with_retry_Some loop_rejected)
qed

theorem with_retry_non_retryable_code_witness:
  "(0::int) \<le> 3 \<and> conflicting ''23505'' 0 = (Inl (coded_error ''23505''), 1) \<and>
   (code (coded_error ''23505'') = Some ''23505'' \<or>
    code (coded_error ''23505'') = Some ''23503'') \<and>
   with_retry (sleep_up_to 9223372036854) (conflicting ''23505'')
     (Some \<lparr>max_retries = 3, delay_ms = 1000, exponential_backoff = True,
            should_retry = Some (\<lambda>error. True)\<rparr>) 0 =
     (Inl (coded_error ''23505''), \<lparr>op_state = 1, trace = [Invoke]\<rparr>)"
  using with_retry_non_retryable_code
          [of "\<lparr>max_retries = 3, delay_ms = 1000, exponential_backoff = True,
                 should_retry = Some (\<lambda>error. True)\<rparr>"
              "conflicting ''23505''" 0 "coded_error ''23505''" 1
              "sleep_up_to 9223372036854"]
  by (simp add: conflicting_def coded_error_def)

text \<open>
  C7. When a \<open>should_retry\<close> predicate is supplied and is false of the error that the first
  call raises, \<open>with_retry\<close> raises that error at once: one invocation and no sleep
  (\<open>max_retries \<ge> 0\<close>, so that there is a first call).
\<close>

theorem with_retry_predicate_false:
  assumes "0 \<le> max_retries config" and "operation s = (Inl e, s')"
    and "should_retry config = Some p" and "\<not> p e"
  shows "with_retry sleep operation (Some config) s =
           (Inl e, \<lparr>op_state = s', trace = [Invoke]\<rparr>)"
proof -
  have "\<not> retryable config e"
    using assms(3,4) by (simp add: retryable_def)
  with assms(1,2) show ?thesis
    by (simp add: with_retry_Some loop_rejected)
qed

theorem with_retry_predicate_false_witness:
  "(0::int) \<le> 3 \<and> flaky 5 0 = (Inl temporary_error, 1) \<and>
   \<not> (\<lambda>error. False) temporary_error \<and>
   with_retry (sleep_up_to 9223372036854) (flaky 5)
     (Some \<lparr>max_retries = 3, delay_ms = 1000, exponential_backoff = True,
            should_retry = Some (\<lambda>error. False)\<rparr>) 0 =
     (Inl temporary_error, \<lparr>op_state = 1, trace = [Invoke]\<rparr>)"
  using with_retry_predicate_false
          [of "\<lparr>max_retries = 3, delay_ms = 1000, exponential_backoff = True,
                 should_retry = Some (\<lambda>error. False)\<rparr>"
              "flaky 5" 0 temporary_error 1 "\<lambda>error. False" "sleep_up_to 9223372036854"]
  by (simp add: flaky_def)

section \<open>Claims about paginate\<close>



text \<open>
  C3, as stated, fails: \<open>paginate\<close> checks nothing before it calls the query builder. With
  \<open>limit = 0\<close> the range \<open>(0, -1)\<close> is requested and \<^verbatim>\<open>ZeroDivisionError\<close> comes from the
  division afterwards; with \<open>limit = -3\<close> the range \<open>(0, -4)\<close> is requested and a result is
  returned.
\<close>

theorem paginate_no_validation_counterexample:
  "paginate (answering (counted_response 0)) \<lparr>page = 1, limit = 0\<rparr> =
     (Inl zero_division_error, [(0, - 1)]) \<and>
   paginate (answering (counted_response 7)) \<lparr>page = 1, limit = - 3\<rparr> =
     (Inr \<lparr>pr_data = [], pr_total = 7, pr_page = 1, pr_limit = - 3, total_pages = - 1,
           has_next = False, has_prev = False\<rparr>, [(0, - 4)])"
  by (simp add: paginate_def answering_def counted_response_def)

text \<open>
  C3, amended. For every request with \<open>limit \<le> 0\<close>, \<open>paginate\<close> does not reject the input
  before the call of the query builder: it makes exactly one call, for the range
  \<open>(offset, offset + limit - 1)\<close>. What is raised is raised after that call: the error of
  the query builder when the call raises; \<^verbatim>\<open>TypeError\<close> when the count of the response is
  \<^verbatim>\<open>None\<close>; otherwise \<^verbatim>\<open>ZeroDivisionError\<close> when \<open>limit = 0\<close>, and nothing when \<open>limit < 0\<close>:
  then a \<^verbatim>\<open>PaginatedResponse\<close> is returned.
\<close>

theorem paginate_calls_before_failing:
  assumes "limit params \<le> 0"
  shows "snd (paginate query params) =
           [((page params - 1) * limit params,
             (page params - 1) * limit params + limit params - 1)] \<and>
         (\<forall>e. query ((page params - 1) * limit params)
                 ((page params - 1) * limit params + limit params - 1) = Inl e \<longrightarrow>
              fst (paginate query params) = Inl e) \<and>
         (\<forall>response. query ((page params - 1) * limit params)
                 ((page params - 1) * limit params + limit params - 1) = Inr response \<longrightarrow>
              (if resp_count response = Some None
               then fst (paginate query params) = Inl type_error
               else if limit params = 0
               then fst (paginate query params) = Inl zero_division_error
               else \<exists>r. fst (paginate query params) = Inr r))"
proof (intro conjI allI impI)
  show "snd (paginate query params) =
           [((page params - 1) * limit params,
             (page params - 1) * limit params + limit params - 1)]"
    by (rule paginate_calls)
next
  fix e
  assume "query ((page params - 1) * limit params)
            ((page params - 1) * limit params + limit params - 1) = Inl e"
  then show "fst (paginate query params) = Inl e"
    by (rule paginate_raises)
next
  fix response
  assume q: "query ((page params - 1) * limit params)
               ((page params - 1) * limit params + limit params - 1) = Inr response"
  show "if resp_count response = Some None
        then fst (paginate query params) = Inl type_error
        else if limit params = 0
        then fst (paginate query params) = Inl zero_division_error
        else \<exists>r. fst (paginate query params) = Inr r"
  proof (cases "resp_count response = Some None")
    case True
    with q show ?thesis by (simp add: paginate_count_None)
  next
    case False
    show ?thesis
    proof (cases "limit params = 0")
      case True
      with q False show ?thesis by (simp add: paginate_limit_0)
    next
      case nz: False
      have "\<exists>r. fst (paginate query params) = Inr r"
      proof (cases "resp_count response")
        case None
        from paginate_uncounted [of query params response] q None nz show ?thesis
          by blast
      next
        case (Some c)
        with False obtain n where "resp_count response = Some (Some n)"
          by (cases c) auto
        from paginate_counted [of query params response n] q this nz show ?thesis
          by simp
      qed
      with False nz show ?thesis by simp
    qed
  qed
qed

theorem paginate_calls_before_failing_witness:
  "limit \<lparr>page = 1, limit = 0\<rparr> \<le> 0 \<and>
   answering (counted_response 0) 0 (- 1) = Inr (counted_response 0) \<and>
   resp_count (counted_response 0) \<noteq> Some None \<and>
   snd (paginate (answering (counted_response 0)) \<lparr>page = 1, limit = 0\<rparr>) = [(0, - 1)] \<and>
   fst (paginate (answering (counted_response 0)) \<lparr>page = 1, limit = 0\<rparr>) =
     Inl zero_division_error"
  using paginate_calls_before_failing
          [of "\<lparr>page = 1, limit = 0\<rparr>" "answering (counted_response 0)"]
  by (simp add: answering_def counted_response_def)

text \<open>
  C4, as stated, fails: for a response without the attributes \<^verbatim>\<open>data\<close> and \<^verbatim>\<open>count\<close>,
  \<open>paginate\<close> completes with the empty list for the rows and their number, 0, for the
  total.
\<close>

theorem paginate_fallback_counterexample:
  "paginate (answering bare_response) \<lparr>page = 1, limit = 10\<rparr> =
     (Inr \<lparr>pr_data = [], pr_total = 0, pr_page = 1, pr_limit = 10, total_pages = 0,
           has_next = False, has_prev = False\<rparr>, [(0, 9)])"
  by (simp add: paginate_def answering_def bare_response_def)

text \<open>
  C4, amended. For \<open>limit \<noteq> 0\<close>, \<open>paginate\<close> substitutes values for absent attributes of the
  response and returns a \<^verbatim>\<open>PaginatedResponse\<close> instead of raising. When the \<^verbatim>\<open>count\<close>
  attribute is absent, the total of the result is the number of its rows, and its rows are
  the \<^verbatim>\<open>data\<close> of the response, or the empty list when the \<^verbatim>\<open>data\<close> attribute is absent too.
  When the \<^verbatim>\<open>data\<close> attribute is absent and the \<^verbatim>\<open>count\<close> is an integer, the rows of the
  result are the empty list and its total is that integer.
\<close>

theorem paginate_substitutes_defaults:
  assumes "limit params \<noteq> 0"
    and "query ((page params - 1) * limit params)
           ((page params - 1) * limit params + limit params - 1) = Inr response"
  shows "(resp_count response = None \<longrightarrow>
            (\<exists>r. fst (paginate query params) = Inr r \<and>
                 pr_data r = (case resp_data response of Some d \<Rightarrow> d | None \<Rightarrow> []) \<and>
                 pr_total r = int (length (pr_data r)))) \<and>
         (\<forall>n. resp_data response = None \<and> resp_count response = Some (Some n) \<longrightarrow>
            (\<exists>r. fst (paginate query params) = Inr r \<and> pr_data r = [] \<and> pr_total r = n))"
proof (intro conjI allI impI)
  assume "resp_count response = None"
  with paginate_uncounted [of query params response] assms
  show "\<exists>r. fst (paginate query params) = Inr r \<and>
            pr_data r = (case resp_data response of Some d \<Rightarrow> d | None \<Rightarrow> []) \<and>
            pr_total r = int (length (pr_data r))"
    by blast
next
  fix n
  assume a: "resp_data response = None \<and> resp_count response = Some (Some n)"
  from paginate_counted [of query params response n] assms a
  show "\<exists>r. fst (paginate query params) = Inr r \<and> pr_data r = [] \<and> pr_total r = n"
    by simp
qed

theorem paginate_substitutes_defaults_witness:
  "limit \<lparr>page = 1, limit = 10\<rparr> \<noteq> 0 \<and>
   answering bare_response 0 9 = Inr bare_response \<and>
   resp_data bare_response = None \<and> resp_count bare_response = None \<and>
   (\<exists>r. fst (paginate (answering bare_response) \<lparr>page = 1, limit = 10\<rparr>) = Inr r \<and>
        pr_data r = [] \<and> pr_total r = 0)"
  using paginate_substitutes_defaults
          [of "\<lparr>page = 1, limit = 10\<rparr>" "answering bare_response" bare_response]
  by (auto simp: answering_def bare_response_def)

text \<open>
  C9, as stated, fails where it has \<open>paginate\<close> ask for a total row count: the one call,
  \<^verbatim>\<open>query.range(offset, offset + limit - 1).execute()\<close>, asks for a range and nothing else.
  A query builder whose \<^verbatim>\<open>select\<close> has asked for no count answers with the count \<^verbatim>\<open>None\<close>,
  and \<open>paginate\<close> then raises \<^verbatim>\<open>TypeError\<close>.
\<close>

theorem paginate_no_count_counterexample:
  "paginate (answering uncounted_response) \<lparr>page = 1, limit = 10\<rparr> =
     (Inl type_error, [(0, 9)])"
  by (simp add: paginate_def answering_def uncounted_response_def)

text \<open>
  C9, amended. For \<open>page \<ge> 1\<close> and \<open>limit \<ge> 1\<close>, \<open>paginate\<close> makes exactly one call of the
  query builder, \<^verbatim>\<open>range(offset, offset + limit - 1).execute()\<close> with
  \<open>offset = (page - 1) * limit \<ge> 0\<close>, which asks for the inclusive range of rows and for
  nothing else. It does not ask for a total row count; it reads the \<^verbatim>\<open>count\<close> of the
  response to that call: an integer count becomes the total of the result, next to the
  rows of the response, and a count that is \<^verbatim>\<open>None\<close> makes \<open>paginate\<close> raise \<^verbatim>\<open>TypeError\<close>.
\<close>

theorem paginate_range_call:
  assumes "1 \<le> page params" and "1 \<le> limit params"
  shows "snd (paginate query params) =
           [((page params - 1) * limit params,
             (page params - 1) * limit params + limit params - 1)] \<and>
         0 \<le> (page params - 1) * limit params \<and>
         (\<forall>rows n. query ((page params - 1) * limit params)
                      ((page params - 1) * limit params + limit params - 1) =
                    Inr \<lparr>resp_data = Some rows, resp_count = Some (Some n)\<rparr> \<longrightarrow>
            (\<exists>r. fst (paginate query params) = Inr r \<and> pr_data r = rows \<and> pr_total r = n)) \<and>
         (\<forall>response. query ((page params - 1) * limit params)
                      ((page params - 1) * limit params + limit params - 1) = Inr response \<and>
                    resp_count response = Some None \<longrightarrow>
            fst (paginate query params) = Inl type_error)"
proof (intro conjI allI impI)
  show "snd (paginate query params) =
           [((page params - 1) * limit params,
             (page params - 1) * limit params + limit params - 1)]"
    by (rule paginate_calls)
  show "0 \<le> (page params - 1) * limit params"
    using assms by simp
next
  fix rows n
  assume "query ((page params - 1) * limit params)
            ((page params - 1) * limit params + limit params - 1) =
          Inr \<lparr>resp_data = Some rows, resp_count = Some (Some n)\<rparr>"
  then show "\<exists>r. fst (paginate query params) = Inr r \<and> pr_data r = rows \<and> pr_total r = n"
    using assms(2)
      paginate_counted [of query params "\<lparr>resp_data = Some rows, resp_count = Some (Some n)\<rparr>" n]
    by simp
next
  fix response
  assume "query ((page params - 1) * limit params)
            ((page params - 1) * limit params + limit params - 1) = Inr response \<and>
          resp_count response = Some None"
  then show "fst (paginate query params) = Inl type_error"
    by (simp add: paginate_count_None)
qed

theorem paginate_range_call_witness:
  "1 \<le> page \<lparr>page = 3, limit = 10\<rparr> \<and> 1 \<le> limit \<lparr>page = 3, limit = 10\<rparr> \<and>
   snd (paginate (answering (counted_response 25)) \<lparr>page = 3, limit = 10\<rparr>) = [(20, 29)] \<and>
   (\<exists>r. fst (paginate (answering (counted_response 25)) \<lparr>page = 3, limit = 10\<rparr>) = Inr r \<and>
        pr_data r = [] \<and> pr_total r = 25)"
  using paginate_range_call
          [of "\<lparr>page = 3, limit = 10\<rparr>" "answering (counted_response 25)"]
  by (auto simp: answering_def counted_response_def)

end
